theory Spec2Isabelle
  imports Main "HOL-Library.Sublist"
begin

section \<open>The login page of mentorly-academia (src/pages/Login.tsx)\<close>

text \<open>
  The page has three pieces of behaviour: the effect that redirects a signed-in user
  (the \<^verbatim>\<open>useEffect\<close> callback of \<^verbatim>\<open>Login\<close>), the form's
  \<^verbatim>\<open>onSubmit\<close> handler and \<^verbatim>\<open>handleGoogleSignIn\<close>. Each is embedded as a
  function from the state it can touch to the state it leaves behind. Calls to
  \<^verbatim>\<open>console.log\<close> and \<^verbatim>\<open>console.error\<close> have no effect on that state and are
  left out.
\<close>

subsection \<open>Strings\<close>

text \<open>
  Strings are lists of 8-bit characters. \<^verbatim>\<open>String.prototype.toLowerCase\<close> is
  modelled on the letters A to Z (codes 65 to 90, moved up by 32); every other character
  is kept. The two phrases the page searches for are made of the letters a to z and
  spaces, so only these letters decide a match.
\<close>

definition lower_char :: "char \<Rightarrow> char" where
  "lower_char c =
     (let n = (of_char c :: nat) in if 65 \<le> n \<and> n \<le> 90 then char_of (n + 32) else c)"

definition toLowerCase :: "string \<Rightarrow> string" where
  "toLowerCase s = map lower_char s"

text \<open>
  \<^verbatim>\<open>s.includes(t)\<close>, searched from the left: \<open>t\<close> starts at the first position of
  \<open>s\<close>, or occurs in the rest.
\<close>

fun includes_str :: "string \<Rightarrow> string \<Rightarrow> bool" where
  "includes_str [] t = (t = [])"
| "includes_str (c # s) t = (prefix t (c # s) \<or> includes_str s t)"

text \<open>
  JavaScript truthiness of a value that is \<^verbatim>\<open>null\<close>/\<^verbatim>\<open>undefined\<close> (\<open>None\<close>) or a
  string: only a non-empty string is truthy.
\<close>

definition truthy :: "string option \<Rightarrow> bool" where
  "truthy v = (case v of None \<Rightarrow> False | Some s \<Rightarrow> s \<noteq> [])"

subsection \<open>State and primitive effects\<close>

text \<open>
  \<open>sessionStorage\<close> is the tab's key-value store; \<open>isLoading\<close> and \<open>error\<close> are the
  component's two \<^verbatim>\<open>useState\<close> cells. \<open>events\<close> is the trace of every call the page
  makes to a collaborator, oldest first, so that the order of a read, a delete and a
  navigation can be stated.
\<close>

datatype event =
    GetItem string
  | RemoveItem string
  | Navigate string bool
  | SetIsLoading bool
  | SetError "string option"
  | ToastError string "nat option"

record world =
  sessionStorage :: "string \<rightharpoonup> string"
  isLoading :: bool
  error :: "string option"
  events :: "event list"

definition getItem :: "string \<Rightarrow> world \<Rightarrow> string option \<times> world" where
  "getItem k w = (sessionStorage w k, w\<lparr>events := events w @ [GetItem k]\<rparr>)"

definition removeItem :: "string \<Rightarrow> world \<Rightarrow> world" where
  "removeItem k w =
     w\<lparr>sessionStorage := (sessionStorage w)(k := None), events := events w @ [RemoveItem k]\<rparr>"

text \<open>\<^verbatim>\<open>navigate(path, { replace })\<close> of the router.\<close>

definition navigate :: "string \<Rightarrow> bool \<Rightarrow> world \<Rightarrow> world" where
  "navigate path replace w = w\<lparr>events := events w @ [Navigate path replace]\<rparr>"

definition setIsLoading :: "bool \<Rightarrow> world \<Rightarrow> world" where
  "setIsLoading b w = w\<lparr>isLoading := b, events := events w @ [SetIsLoading b]\<rparr>"

definition setError :: "string option \<Rightarrow> world \<Rightarrow> world" where
  "setError e w = w\<lparr>error := e, events := events w @ [SetError e]\<rparr>"

text \<open>\<^verbatim>\<open>toast.error(text, { duration })\<close>; the duration is optional.\<close>

definition toast_error :: "string \<Rightarrow> nat option \<Rightarrow> world \<Rightarrow> world" where
  "toast_error msg duration w = w\<lparr>events := events w @ [ToastError msg duration]\<rparr>"

text \<open>The events a run added to the trace it started from.\<close>

definition new_events :: "world \<Rightarrow> world \<Rightarrow> event list" where
  "new_events w w' = drop (length (events w)) (events w')"

fun is_navigate :: "event \<Rightarrow> bool" where
  "is_navigate (Navigate p r) = True"
| "is_navigate e = False"

fun is_storage_access :: "event \<Rightarrow> bool" where
  "is_storage_access (GetItem k) = True"
| "is_storage_access (RemoveItem k) = True"
| "is_storage_access e = False"

subsection \<open>The redirect effect\<close>

text \<open>
  The values \<^verbatim>\<open>useAuth()\<close> hands to the page: \<open>user\<close> is an object or \<^verbatim>\<open>null\<close>.
\<close>

type_synonym user_identity = string

record auth_status =
  user :: "user_identity option"
  isAdmin :: bool
  authLoading :: bool

text \<open>
  The body of the \<^verbatim>\<open>useEffect\<close> callback (Login.tsx, lines 27 to 55): return while
  the auth status is loading; with a user, read the stored path, start from the default
  for the role, let a truthy stored path override it and remove the key in that branch
  only, then navigate with \<^verbatim>\<open>replace: true\<close>.
\<close>

definition Login_useEffect :: "auth_status \<Rightarrow> world \<Rightarrow> world" where
  "Login_useEffect a w =
     (if authLoading a then w
      else case user a of
        None \<Rightarrow> w
      | Some u \<Rightarrow>
          (let (redirectPath, w1) = getItem ''postLoginRedirect'' w;
               navigateTo = (if isAdmin a then ''/admin'' else ''/dashboard'');
               (navigateTo, w2) =
                 (case redirectPath of
                    None \<Rightarrow> (navigateTo, w1)
                  | Some p \<Rightarrow>
                      if truthy (Some p)
                      then (p, removeItem ''postLoginRedirect'' w1)
                      else (navigateTo, w1))
           in navigate navigateTo True w2))"

subsection \<open>Awaited calls\<close>

text \<open>
  What \<^verbatim>\<open>await\<close> on a collaborator's promise gives: a value, or a thrown error. The
  handlers read only the \<^verbatim>\<open>message\<close> property of what they catch. The thrown value
  is taken to be an object, as the errors of the auth client are, whose \<^verbatim>\<open>message\<close> is
  a string or is missing (\<open>None\<close>).
\<close>

record js_error =
  message :: "string option"

datatype 'a settled = Resolved 'a | Threw js_error

text \<open>
  The test \<^verbatim>\<open>err.message && err.message.toLowerCase().includes(phrase)\<close>.
\<close>

definition message_includes :: "js_error \<Rightarrow> string \<Rightarrow> bool" where
  "message_includes err phrase =
     (case message err of
        None \<Rightarrow> False
      | Some m \<Rightarrow> truthy (Some m) \<and> includes_str (toLowerCase m) phrase)"

subsection \<open>Submitting the form\<close>

record form_data =
  email :: string
  password :: string

text \<open>
  \<^verbatim>\<open>onSubmit\<close> (Login.tsx, lines 83 to 115). \<open>login\<close> stands for the function of the
  auth context; the \<^verbatim>\<open>finally\<close> block runs after either branch.
\<close>

definition onSubmit :: "(string \<Rightarrow> string \<Rightarrow> bool settled) \<Rightarrow> form_data \<Rightarrow> world \<Rightarrow> world" where
  "onSubmit login data w =
     (let w1 = setIsLoading True w;
          w2 = setError None w1;
          w3 =
            (case login (email data) (password data) of
               Resolved loginSuccess \<Rightarrow>
                 if \<not> loginSuccess
                 then setError (Some ''Login failed. Please check your credentials.'') w2
                 else w2
             | Threw err \<Rightarrow>
                 if message_includes err ''email not confirmed''
                 then toast_error ''Email not verified. Please check your inbox.'' (Some 6000)
                        (setError (Some ''Please verify your email address by clicking the link sent to your inbox before logging in.'') w2)
                 else if message_includes err ''invalid login credentials''
                 then toast_error ''Invalid email or password.'' None
                        (setError (Some ''Invalid email or password. Please try again.'') w2)
                 else toast_error ''Login failed due to an unexpected error.'' None
                        (setError (Some ''An unexpected error occurred during login.'') w2))
      in setIsLoading False w3)"

text \<open>
  The outcome classes of the specification, read off the inline message the handler
  leaves in \<open>error\<close>; \<open>None\<close> when the handler left no message.
\<close>

datatype outcome = Unverified | BadCredentials | Rejected | Unknown

definition outcome_of :: "world \<Rightarrow> outcome option" where
  "outcome_of w =
     (if error w = Some ''Please verify your email address by clicking the link sent to your inbox before logging in.''
      then Some Unverified
      else if error w = Some ''Invalid email or password. Please try again.''
      then Some BadCredentials
      else if error w = Some ''Login failed. Please check your credentials.''
      then Some Rejected
      else if error w = Some ''An unexpected error occurred during login.''
      then Some Unknown
      else None)"

subsection \<open>Signing in with Google\<close>

text \<open>
  \<^verbatim>\<open>handleGoogleSignIn\<close> (Login.tsx, lines 57 to 69); \<open>signInWithGoogle\<close> is the
  settled call of the auth context. Only the \<^verbatim>\<open>catch\<close> block stops the loading state.
\<close>

definition handleGoogleSignIn :: "unit settled \<Rightarrow> world \<Rightarrow> world" where
  "handleGoogleSignIn signInWithGoogle w =
     (let w1 = setError None w;
          w2 = setIsLoading True w1
      in case signInWithGoogle of
           Resolved u \<Rightarrow> w2
         | Threw err \<Rightarrow>
             setIsLoading False
               (setError (Some ''Failed to sign in with Google. Please try again.'') w2))"

subsection \<open>The specification's vocabulary\<close>

text \<open>
  Following the specification's words, "case-insensitive substring match": some contiguous
  run of the message equals the phrase once letter case is ignored. A thrown error
  contains a phrase when it has a message that does.
\<close>

definition contains_ignoring_case :: "string \<Rightarrow> string \<Rightarrow> bool" where
  "contains_ignoring_case msg phrase =
     (\<exists>run. sublist run msg \<and> toLowerCase run = toLowerCase phrase)"

definition thrown_contains :: "js_error \<Rightarrow> string \<Rightarrow> bool" where
  "thrown_contains err phrase =
     (case message err of None \<Rightarrow> False | Some m \<Rightarrow> contains_ignoring_case m phrase)"

subsection \<open>Concrete inputs\<close>

definition signed_in :: "bool \<Rightarrow> bool \<Rightarrow> auth_status" where
  "signed_in admin loading = \<lparr>user = Some ''user-1'', isAdmin = admin, authLoading = loading\<rparr>"

definition signed_out :: auth_status where
  "signed_out = \<lparr>user = None, isAdmin = False, authLoading = False\<rparr>"

definition idle_world :: world where
  "idle_world = \<lparr>sessionStorage = Map.empty, isLoading = False, error = None, events = []\<rparr>"

text \<open>A tab in which both keys are set before the login page is shown.\<close>

definition tab_with_hint :: "string \<Rightarrow> world" where
  "tab_with_hint h =
     \<lparr>sessionStorage = [''postLoginRedirect'' \<mapsto> h, ''postLoginAction'' \<mapsto> ''enroll''],
      isLoading = False, error = None, events = []\<rparr>"

definition sample_form :: form_data where
  "sample_form = \<lparr>email = ''ada@example.org'', password = ''secret''\<rparr>"

definition login_throwing :: "js_error \<Rightarrow> string \<Rightarrow> string \<Rightarrow> bool settled" where
  "login_throwing err e p = Threw err"

definition login_returning :: "bool \<Rightarrow> string \<Rightarrow> string \<Rightarrow> bool settled" where
  "login_returning b e p = Resolved b"

definition error_with_message :: "string \<Rightarrow> js_error" where
  "error_with_message m = \<lparr>message = Some m\<rparr>"

section \<open>Properties\<close>

subsection \<open>Substring search and letter case\<close>

lemma includes_str_sublist: "includes_str s t \<longleftrightarrow> sublist t s"
  by (induction s) (simp_all add: sublist_Cons_right)

text \<open>
  For a phrase already in lower case, the page's test on the lowered message is the
  specification's case-insensitive containment.
\<close>

lemma includes_lowered:
  assumes "toLowerCase phrase = phrase"
  shows "includes_str (toLowerCase m) phrase \<longleftrightarrow> contains_ignoring_case m phrase"
proof
  assume "includes_str (toLowerCase m) phrase"
  then have "sublist phrase (map lower_char m)"
    by (simp add: includes_str_sublist toLowerCase_def)
  then obtain run where "sublist run m" "phrase = map lower_char run"
    using sublist_map_rightE by blast
  then show "contains_ignoring_case m phrase"
    using assms by (auto simp: contains_ignoring_case_def toLowerCase_def)
next
  assume "contains_ignoring_case m phrase"
  then obtain run where run: "sublist run m" "toLowerCase run = phrase"
    using assms by (auto simp: contains_ignoring_case_def)
  from run(1) have "sublist (map lower_char run) (map lower_char m)"
    by (rule map_mono_sublist)
  with run(2) show "includes_str (toLowerCase m) phrase"
    by (simp add: includes_str_sublist toLowerCase_def)
qed

lemma message_includes_thrown:
  assumes "toLowerCase phrase = phrase" and "phrase \<noteq> []"
  shows "message_includes err phrase \<longleftrightarrow> thrown_contains err phrase"
proof (cases "message err")
  case None
  then show ?thesis by (simp add: message_includes_def thrown_contains_def)
next
  case (Some m)
  have "includes_str (toLowerCase m) phrase \<Longrightarrow> m \<noteq> []"
    using assms(2) by (auto simp: toLowerCase_def)
  then show ?thesis
    using Some includes_lowered [OF assms(1), of m]
    by (auto simp: message_includes_def thrown_contains_def truthy_def)
qed

lemma phrase_unverified_lower: "toLowerCase ''email not confirmed'' = ''email not confirmed''"
  by code_simp

lemma phrase_invalid_lower:
  "toLowerCase ''invalid login credentials'' = ''invalid login credentials''"
  by code_simp

lemma unverified_test:
  "message_includes err ''email not confirmed'' \<longleftrightarrow> thrown_contains err ''email not confirmed''"
  by (rule message_includes_thrown [OF phrase_unverified_lower]) simp

lemma invalid_test:
  "message_includes err ''invalid login credentials'' \<longleftrightarrow>
   thrown_contains err ''invalid login credentials''"
  by (rule message_includes_thrown [OF phrase_invalid_lower]) simp

subsection \<open>What each handler leaves behind\<close>

lemmas effect_defs =
  Login_useEffect_def getItem_def removeItem_def navigate_def truthy_def new_events_def

lemmas submit_defs = onSubmit_def setIsLoading_def setError_def toast_error_def new_events_def

lemma onSubmit_threw:
  "login (email d) (password d) = Threw err \<Longrightarrow>
   onSubmit login d w =
     (if thrown_contains err ''email not confirmed''
      then w\<lparr>isLoading := False,
             error := Some ''Please verify your email address by clicking the link sent to your inbox before logging in.'',
             events := events w @ [SetIsLoading True, SetError None,
               SetError (Some ''Please verify your email address by clicking the link sent to your inbox before logging in.''),
               ToastError ''Email not verified. Please check your inbox.'' (Some 6000),
               SetIsLoading False]\<rparr>
      else if thrown_contains err ''invalid login credentials''
      then w\<lparr>isLoading := False,
             error := Some ''Invalid email or password. Please try again.'',
             events := events w @ [SetIsLoading True, SetError None,
               SetError (Some ''Invalid email or password. Please try again.''),
               ToastError ''Invalid email or password.'' None, SetIsLoading False]\<rparr>
      else w\<lparr>isLoading := False,
             error := Some ''An unexpected error occurred during login.'',
             events := events w @ [SetIsLoading True, SetError None,
               SetError (Some ''An unexpected error occurred during login.''),
               ToastError ''Login failed due to an unexpected error.'' None,
               SetIsLoading False]\<rparr>)"
  by (simp add: submit_defs unverified_test invalid_test)

lemma onSubmit_resolved:
  "login (email d) (password d) = Resolved b \<Longrightarrow>
   onSubmit login d w =
     (if b
      then w\<lparr>isLoading := False, error := None,
             events := events w @ [SetIsLoading True, SetError None, SetIsLoading False]\<rparr>
      else w\<lparr>isLoading := False,
             error := Some ''Login failed. Please check your credentials.'',
             events := events w @ [SetIsLoading True, SetError None,
               SetError (Some ''Login failed. Please check your credentials.''),
               SetIsLoading False]\<rparr>)"
  by (simp add: submit_defs)

section \<open>The redirect effect\<close>

text \<open>
  C3: while the auth status is loading (whatever \<open>user\<close> and \<open>isAdmin\<close> are), and when
  loading is over and no user is present, the effect returns the state it was given:
  it triggers no navigation and neither reads nor deletes a storage key.
\<close>

theorem Login_useEffect_waits:
  assumes "authLoading a \<or> (user a = None \<and> \<not> authLoading a)"
  shows "Login_useEffect a w = w
       \<and> filter is_navigate (new_events w (Login_useEffect a w)) = []
       \<and> filter is_storage_access (new_events w (Login_useEffect a w)) = []"
  using assms by (auto simp: effect_defs)

theorem Login_useEffect_waits_witness:
  "authLoading (signed_in True True)
   \<and> Login_useEffect (signed_in True True) (tab_with_hint ''/orders/42'')
       = tab_with_hint ''/orders/42''
   \<and> user signed_out = None
   \<and> filter is_storage_access
        (new_events (tab_with_hint ''/orders/42'')
           (Login_useEffect signed_out (tab_with_hint ''/orders/42''))) = []"
proof -
  have l: "authLoading (signed_in True True)"
    by (simp add: signed_in_def)
  have n: "user signed_out = None" "\<not> authLoading signed_out"
    by (simp_all add: signed_out_def)
  have h1: "authLoading (signed_in True True)
      \<or> (user (signed_in True True) = None \<and> \<not> authLoading (signed_in True True))"
    using l by simp
  have h2: "authLoading signed_out \<or> (user signed_out = None \<and> \<not> authLoading signed_out)"
    using n by simp
  note loading = Login_useEffect_waits [OF h1, of "tab_with_hint ''/orders/42''"]
  note absent = Login_useEffect_waits [OF h2, of "tab_with_hint ''/orders/42''"]
  from loading [THEN conjunct1] absent [THEN conjunct2, THEN conjunct2] l n(1)
  show ?thesis by (intro conjI)
qed

text \<open>
  C4: with loading over, a user present and no stored redirect path, the effect reads
  the key and then navigates once, with replace set, to \<open>/admin\<close> for an admin and to
  \<open>/dashboard\<close> otherwise.
\<close>

theorem Login_useEffect_default:
  assumes "\<not> authLoading a" and "user a = Some u"
    and "sessionStorage w ''postLoginRedirect'' = None"
  shows "new_events w (Login_useEffect a w) =
           [GetItem ''postLoginRedirect'',
            Navigate (if isAdmin a then ''/admin'' else ''/dashboard'') True]
       \<and> filter is_navigate (new_events w (Login_useEffect a w)) =
           [Navigate (if isAdmin a then ''/admin'' else ''/dashboard'') True]"
  using assms by (simp add: effect_defs)

theorem Login_useEffect_default_witness:
  "filter is_navigate (new_events idle_world (Login_useEffect (signed_in True False) idle_world))
     = [Navigate ''/admin'' True]
   \<and> filter is_navigate (new_events idle_world (Login_useEffect (signed_in False False) idle_world))
     = [Navigate ''/dashboard'' True]"
proof -
  have st: "sessionStorage idle_world ''postLoginRedirect'' = None"
    by (simp add: idle_world_def)
  have adm: "\<not> authLoading (signed_in True False)" "user (signed_in True False) = Some ''user-1''"
    "isAdmin (signed_in True False)"
    by (simp_all add: signed_in_def)
  have usr: "\<not> authLoading (signed_in False False)" "user (signed_in False False) = Some ''user-1''"
    "\<not> isAdmin (signed_in False False)"
    by (simp_all add: signed_in_def)
  from Login_useEffect_default [OF adm(1) adm(2) st] Login_useEffect_default [OF usr(1) usr(2) st]
    adm(3) usr(3)
  show ?thesis by simp
qed

text \<open>
  C1, as amended: with loading over and a user present, the effect always reads the
  \<open>postLoginRedirect\<close> key, and the key is absent from storage afterwards unless the
  value read was the empty string. A non-empty value is removed right after the read
  and before navigation is triggered, so the removal does not depend on the navigation.
\<close>

theorem Login_useEffect_clears_hint:
  assumes "\<not> authLoading a" and "user a = Some u"
    and "sessionStorage w ''postLoginRedirect'' \<noteq> Some []"
  shows "sessionStorage (Login_useEffect a w) ''postLoginRedirect'' = None
       \<and> (case sessionStorage w ''postLoginRedirect'' of
            None \<Rightarrow>
              new_events w (Login_useEffect a w) =
                [GetItem ''postLoginRedirect'',
                 Navigate (if isAdmin a then ''/admin'' else ''/dashboard'') True]
          | Some h \<Rightarrow>
              new_events w (Login_useEffect a w) =
                [GetItem ''postLoginRedirect'', RemoveItem ''postLoginRedirect'',
                 Navigate h True])"
  using assms by (auto simp: effect_defs split: option.split)

theorem Login_useEffect_clears_hint_witness:
  "sessionStorage (tab_with_hint ''/orders/42'') ''postLoginRedirect'' = Some ''/orders/42''
   \<and> sessionStorage (Login_useEffect (signed_in False False) (tab_with_hint ''/orders/42''))
        ''postLoginRedirect'' = None
   \<and> new_events (tab_with_hint ''/orders/42'')
        (Login_useEffect (signed_in False False) (tab_with_hint ''/orders/42'')) =
        [GetItem ''postLoginRedirect'', RemoveItem ''postLoginRedirect'',
         Navigate ''/orders/42'' True]"
proof -
  have a: "\<not> authLoading (signed_in False False)" "user (signed_in False False) = Some ''user-1''"
    by (simp_all add: signed_in_def)
  have st: "sessionStorage (tab_with_hint ''/orders/42'') ''postLoginRedirect'' = Some ''/orders/42''"
    by (simp add: tab_with_hint_def)
  then have ne: "sessionStorage (tab_with_hint ''/orders/42'') ''postLoginRedirect'' \<noteq> Some []"
    by simp
  from Login_useEffect_clears_hint [OF a(1) a(2) ne] st
  show ?thesis by simp
qed

text \<open>
  C1 as stated fails: a stored empty string is read and the key is still in storage
  after the effect has run.
\<close>

theorem Login_useEffect_clears_hint_counterexample:
  "\<not> authLoading (signed_in False False)
   \<and> user (signed_in False False) = Some ''user-1''
   \<and> GetItem ''postLoginRedirect''
        \<in> set (new_events (tab_with_hint []) (Login_useEffect (signed_in False False) (tab_with_hint [])))
   \<and> sessionStorage (Login_useEffect (signed_in False False) (tab_with_hint []))
        ''postLoginRedirect'' = Some []"
  by (simp add: effect_defs signed_in_def tab_with_hint_def)

text \<open>
  C2, as amended: with loading over, a user present and a non-empty path stored under
  \<open>postLoginRedirect\<close>, the effect navigates exactly once, to that path with replace
  set; the key is absent afterwards; every other key, \<open>postLoginAction\<close> among them,
  holds what it held before.
\<close>

theorem Login_useEffect_stored_hint:
  assumes "\<not> authLoading a" and "user a = Some u"
    and "sessionStorage w ''postLoginRedirect'' = Some h" and "h \<noteq> []"
  shows "filter is_navigate (new_events w (Login_useEffect a w)) = [Navigate h True]
       \<and> new_events w (Login_useEffect a w) =
           [GetItem ''postLoginRedirect'', RemoveItem ''postLoginRedirect'', Navigate h True]
       \<and> sessionStorage (Login_useEffect a w) ''postLoginRedirect'' = None
       \<and> sessionStorage (Login_useEffect a w) ''postLoginAction''
           = sessionStorage w ''postLoginAction''
       \<and> sessionStorage (Login_useEffect a w)
           = (sessionStorage w)(''postLoginRedirect'' := None)"
  using assms by (simp add: effect_defs)

theorem Login_useEffect_stored_hint_witness:
  "filter is_navigate
     (new_events (tab_with_hint ''/orders/42'')
        (Login_useEffect (signed_in True False) (tab_with_hint ''/orders/42'')))
     = [Navigate ''/orders/42'' True]
   \<and> sessionStorage (Login_useEffect (signed_in True False) (tab_with_hint ''/orders/42''))
        ''postLoginRedirect'' = None
   \<and> sessionStorage (Login_useEffect (signed_in True False) (tab_with_hint ''/orders/42''))
        ''postLoginAction'' = Some ''enroll''"
proof -
  have a: "\<not> authLoading (signed_in True False)" "user (signed_in True False) = Some ''user-1''"
    by (simp_all add: signed_in_def)
  have st: "sessionStorage (tab_with_hint ''/orders/42'') ''postLoginRedirect'' = Some ''/orders/42''"
    and act: "sessionStorage (tab_with_hint ''/orders/42'') ''postLoginAction'' = Some ''enroll''"
    by (simp_all add: tab_with_hint_def)
  have ne: "''/orders/42'' \<noteq> []"
    by simp
  from Login_useEffect_stored_hint [OF a(1) a(2) st ne] act
  show ?thesis by simp
qed

text \<open>
  C2 as stated fails: with a user present and the path stored, but the auth status
  still loading, nothing is navigated to and the key keeps its value.
\<close>

theorem Login_useEffect_stored_hint_counterexample:
  "user (signed_in False True) = Some ''user-1''
   \<and> sessionStorage (tab_with_hint ''/orders/42'') ''postLoginRedirect'' = Some ''/orders/42''
   \<and> filter is_navigate
        (new_events (tab_with_hint ''/orders/42'')
           (Login_useEffect (signed_in False True) (tab_with_hint ''/orders/42''))) = []
   \<and> sessionStorage (Login_useEffect (signed_in False True) (tab_with_hint ''/orders/42''))
        ''postLoginRedirect'' = Some ''/orders/42''"
  by (simp add: effect_defs signed_in_def tab_with_hint_def)

text \<open>
  C9: with loading over and a user present, a stored empty string is treated like an
  absent path: the effect navigates to the default for the role, adds the same events
  as it would with the key removed beforehand, performs no delete, and the storage,
  the empty-string entry included, is what it was.
\<close>

theorem Login_useEffect_empty_hint:
  assumes "\<not> authLoading a" and "user a = Some u"
    and "sessionStorage w ''postLoginRedirect'' = Some []"
  shows "new_events w (Login_useEffect a w) =
           [GetItem ''postLoginRedirect'',
            Navigate (if isAdmin a then ''/admin'' else ''/dashboard'') True]
       \<and> new_events w (Login_useEffect a w) =
           new_events (w\<lparr>sessionStorage := (sessionStorage w)(''postLoginRedirect'' := None)\<rparr>)
             (Login_useEffect a
                (w\<lparr>sessionStorage := (sessionStorage w)(''postLoginRedirect'' := None)\<rparr>))
       \<and> RemoveItem ''postLoginRedirect'' \<notin> set (new_events w (Login_useEffect a w))
       \<and> sessionStorage (Login_useEffect a w) = sessionStorage w
       \<and> sessionStorage (Login_useEffect a w) ''postLoginRedirect'' = Some []"
  using assms by (simp add: effect_defs)

theorem Login_useEffect_empty_hint_witness:
  "new_events (tab_with_hint []) (Login_useEffect (signed_in True False) (tab_with_hint []))
     = [GetItem ''postLoginRedirect'', Navigate ''/admin'' True]
   \<and> sessionStorage (Login_useEffect (signed_in True False) (tab_with_hint []))
        ''postLoginRedirect'' = Some []"
proof -
  have a: "\<not> authLoading (signed_in True False)" "user (signed_in True False) = Some ''user-1''"
    "isAdmin (signed_in True False)"
    by (simp_all add: signed_in_def)
  have st: "sessionStorage (tab_with_hint []) ''postLoginRedirect'' = Some []"
    by (simp add: tab_with_hint_def)
  note run = Login_useEffect_empty_hint [OF a(1) a(2) st]
  from run [THEN conjunct1] a(3)
  have "new_events (tab_with_hint []) (Login_useEffect (signed_in True False) (tab_with_hint []))
      = [GetItem ''postLoginRedirect'', Navigate ''/admin'' True]"
    by simp
  with run [THEN conjunct2, THEN conjunct2, THEN conjunct2, THEN conjunct2]
  show ?thesis by (intro conjI)
qed

section \<open>Submitting credentials\<close>

text \<open>
  C7: on every path of a submission (login returns true, returns false, or throws any
  error) the busy flag is false when the handler is done, and clearing it is the last
  thing the handler does, after any message it has set.
\<close>

theorem onSubmit_always_stops_loading:
  "isLoading (onSubmit login d w) = False
   \<and> last (events (onSubmit login d w)) = SetIsLoading False"
  by (simp add: onSubmit_def Let_def setIsLoading_def)

theorem onSubmit_always_stops_loading_witness:
  "isLoading (onSubmit (login_returning True) sample_form idle_world) = False
   \<and> isLoading (onSubmit (login_returning False) sample_form idle_world) = False
   \<and> isLoading (onSubmit (login_throwing \<lparr>message = None\<rparr>) sample_form idle_world) = False"
  using onSubmit_always_stops_loading [of "login_returning True" sample_form idle_world]
    onSubmit_always_stops_loading [of "login_returning False" sample_form idle_world]
    onSubmit_always_stops_loading [of "login_throwing \<lparr>message = None\<rparr>" sample_form idle_world]
  by (intro conjI) (erule conjunct1)+

text \<open>
  C6: when login returns false without throwing, the inline message is exactly
  "Login failed. Please check your credentials." (the Rejected outcome) and no toast is
  raised; a submission whose login throws an error matched as "invalid login credentials"
  ends with another message and another outcome, BadCredentials.
\<close>

theorem onSubmit_rejected:
  assumes "login (email d) (password d) = Resolved False"
    and "login' (email d) (password d) = Threw err"
    and "\<not> thrown_contains err ''email not confirmed''"
    and "thrown_contains err ''invalid login credentials''"
  shows "error (onSubmit login d w) = Some ''Login failed. Please check your credentials.''
       \<and> outcome_of (onSubmit login d w) = Some Rejected
       \<and> new_events w (onSubmit login d w) =
           [SetIsLoading True, SetError None,
            SetError (Some ''Login failed. Please check your credentials.''),
            SetIsLoading False]
       \<and> outcome_of (onSubmit login' d w) = Some BadCredentials
       \<and> outcome_of (onSubmit login d w) \<noteq> outcome_of (onSubmit login' d w)
       \<and> error (onSubmit login d w) \<noteq> error (onSubmit login' d w)"
  using assms(3,4)
  by (simp add: onSubmit_resolved [of login d False, OF assms(1)]
      onSubmit_threw [of login' d err, OF assms(2)] outcome_of_def new_events_def)

theorem onSubmit_rejected_witness:
  "error (onSubmit (login_returning False) sample_form idle_world)
     = Some ''Login failed. Please check your credentials.''
   \<and> outcome_of (onSubmit (login_returning False) sample_form idle_world) = Some Rejected
   \<and> outcome_of
        (onSubmit (login_throwing (error_with_message ''Invalid login credentials''))
           sample_form idle_world) = Some BadCredentials"
proof -
  have r: "login_returning False (email sample_form) (password sample_form) = Resolved False"
    by (simp add: login_returning_def)
  have t: "login_throwing (error_with_message ''Invalid login credentials'')
      (email sample_form) (password sample_form)
      = Threw (error_with_message ''Invalid login credentials'')"
    by (simp add: login_throwing_def)
  have a: "\<not> thrown_contains (error_with_message ''Invalid login credentials'')
      ''email not confirmed''"
    unfolding unverified_test [symmetric] by code_simp
  have b: "thrown_contains (error_with_message ''Invalid login credentials'')
      ''invalid login credentials''"
    unfolding invalid_test [symmetric] by code_simp
  note run = onSubmit_rejected [of "login_returning False" sample_form
      "login_throwing (error_with_message ''Invalid login credentials'')"
      "error_with_message ''Invalid login credentials''" idle_world, OF r t a b]
  from run [THEN conjunct1] run [THEN conjunct2, THEN conjunct1]
    run [THEN conjunct2, THEN conjunct2, THEN conjunct2, THEN conjunct1]
  show ?thesis by (intro conjI)
qed

text \<open>
  C5, as amended: when login throws, the thrown message is classified by
  case-insensitive substring match: a message containing "email not confirmed" gives
  Unverified; a message containing "invalid login credentials" and not "email not
  confirmed" gives BadCredentials, with the inline message "Invalid email or password.
  Please try again."; any other thrown error, one without a message included, gives
  Unknown. In every thrown case the busy flag is cleared and the handler triggers no
  navigation.
\<close>

theorem onSubmit_thrown_classified:
  assumes "login (email d) (password d) = Threw err"
  shows "(if thrown_contains err ''email not confirmed''
          then outcome_of (onSubmit login d w) = Some Unverified
          else if thrown_contains err ''invalid login credentials''
          then outcome_of (onSubmit login d w) = Some BadCredentials
             \<and> error (onSubmit login d w) = Some ''Invalid email or password. Please try again.''
          else outcome_of (onSubmit login d w) = Some Unknown)
       \<and> isLoading (onSubmit login d w) = False
       \<and> filter is_navigate (new_events w (onSubmit login d w)) = []"
  by (simp add: onSubmit_threw [of login d err, OF assms] outcome_of_def new_events_def)

theorem onSubmit_thrown_classified_witness:
  "thrown_contains (error_with_message ''Invalid login credentials'') ''invalid login credentials''
   \<and> outcome_of
        (onSubmit (login_throwing (error_with_message ''Invalid login credentials''))
           sample_form (tab_with_hint ''/orders/42'')) = Some BadCredentials
   \<and> isLoading
        (onSubmit (login_throwing (error_with_message ''Invalid login credentials''))
           sample_form (tab_with_hint ''/orders/42'')) = False
   \<and> filter is_navigate
        (new_events (tab_with_hint ''/orders/42'')
           (onSubmit (login_throwing (error_with_message ''Invalid login credentials''))
              sample_form (tab_with_hint ''/orders/42''))) = []"
proof -
  have t: "login_throwing (error_with_message ''Invalid login credentials'')
      (email sample_form) (password sample_form)
      = Threw (error_with_message ''Invalid login credentials'')"
    by (simp add: login_throwing_def)
  have a: "\<not> thrown_contains (error_with_message ''Invalid login credentials'')
      ''email not confirmed''"
    unfolding unverified_test [symmetric] by code_simp
  have b: "thrown_contains (error_with_message ''Invalid login credentials'')
      ''invalid login credentials''"
    unfolding invalid_test [symmetric] by code_simp
  from onSubmit_thrown_classified
    [of "login_throwing (error_with_message ''Invalid login credentials'')" sample_form
        "error_with_message ''Invalid login credentials''" "tab_with_hint ''/orders/42''", OF t]
    a b
  show ?thesis by simp
qed

text \<open>
  C5 as stated fails: a thrown message that contains "invalid login credentials" and
  also "email not confirmed" does not give BadCredentials; the handler shows the
  email-verification message.
\<close>

theorem onSubmit_thrown_classified_counterexample:
  "thrown_contains (error_with_message ''Email not confirmed; invalid login credentials'')
     ''invalid login credentials''
   \<and> error
        (onSubmit (login_throwing (error_with_message ''Email not confirmed; invalid login credentials''))
           sample_form idle_world)
       = Some ''Please verify your email address by clicking the link sent to your inbox before logging in.''
   \<and> outcome_of
        (onSubmit (login_throwing (error_with_message ''Email not confirmed; invalid login credentials''))
           sample_form idle_world) \<noteq> Some BadCredentials"
proof -
  have t: "login_throwing (error_with_message ''Email not confirmed; invalid login credentials'')
      (email sample_form) (password sample_form)
      = Threw (error_with_message ''Email not confirmed; invalid login credentials'')"
    by (simp add: login_throwing_def)
  have a: "thrown_contains (error_with_message ''Email not confirmed; invalid login credentials'')
      ''email not confirmed''"
    unfolding unverified_test [symmetric] by code_simp
  have b: "thrown_contains (error_with_message ''Email not confirmed; invalid login credentials'')
      ''invalid login credentials''"
    unfolding invalid_test [symmetric] by code_simp
  note run = onSubmit_threw
    [of "login_throwing (error_with_message ''Email not confirmed; invalid login credentials'')"
        sample_form "error_with_message ''Email not confirmed; invalid login credentials''"
        idle_world, OF t]
  from a b show ?thesis
    by (simp add: run outcome_of_def)
qed

text \<open>
  C10: when the thrown message contains both "email not confirmed" and "invalid login
  credentials" (case-insensitively), the email-verification branch is taken: its inline
  message and its toast are shown, and the invalid-credentials message is never set.
\<close>

theorem onSubmit_unverified_first:
  assumes "login (email d) (password d) = Threw err"
    and "thrown_contains err ''email not confirmed''"
    and "thrown_contains err ''invalid login credentials''"
  shows "error (onSubmit login d w)
           = Some ''Please verify your email address by clicking the link sent to your inbox before logging in.''
       \<and> outcome_of (onSubmit login d w) = Some Unverified
       \<and> new_events w (onSubmit login d w) =
           [SetIsLoading True, SetError None,
            SetError (Some ''Please verify your email address by clicking the link sent to your inbox before logging in.''),
            ToastError ''Email not verified. Please check your inbox.'' (Some 6000),
            SetIsLoading False]
       \<and> SetError (Some ''Invalid email or password. Please try again.'')
           \<notin> set (new_events w (onSubmit login d w))"
  using assms(2)
  by (simp add: onSubmit_threw [of login d err, OF assms(1)] outcome_of_def new_events_def)

theorem onSubmit_unverified_first_witness:
  "thrown_contains (error_with_message ''Invalid login credentials (Email Not Confirmed)'')
     ''email not confirmed''
   \<and> thrown_contains (error_with_message ''Invalid login credentials (Email Not Confirmed)'')
     ''invalid login credentials''
   \<and> outcome_of
        (onSubmit (login_throwing (error_with_message ''Invalid login credentials (Email Not Confirmed)''))
           sample_form idle_world) = Some Unverified"
proof -
  have t: "login_throwing (error_with_message ''Invalid login credentials (Email Not Confirmed)'')
      (email sample_form) (password sample_form)
      = Threw (error_with_message ''Invalid login credentials (Email Not Confirmed)'')"
    by (simp add: login_throwing_def)
  have a: "thrown_contains (error_with_message ''Invalid login credentials (Email Not Confirmed)'')
      ''email not confirmed''"
    unfolding unverified_test [symmetric] by code_simp
  have b: "thrown_contains (error_with_message ''Invalid login credentials (Email Not Confirmed)'')
      ''invalid login credentials''"
    unfolding invalid_test [symmetric] by code_simp
  note run = onSubmit_unverified_first
    [of "login_throwing (error_with_message ''Invalid login credentials (Email Not Confirmed)'')"
        sample_form "error_with_message ''Invalid login credentials (Email Not Confirmed)''"
        idle_world, OF t a b]
  from a b run [THEN conjunct2, THEN conjunct1]
  show ?thesis by (intro conjI)
qed

section \<open>Signing in with Google\<close>

text \<open>
  C8: when the provider call throws, the generic failure message is set and the busy
  flag is set back to false; when it returns, the handler has only cleared the message
  and set the busy flag, which stays true.
\<close>

theorem handleGoogleSignIn_loading:
  "error (handleGoogleSignIn (Threw err) w)
     = Some ''Failed to sign in with Google. Please try again.''
   \<and> isLoading (handleGoogleSignIn (Threw err) w) = False
   \<and> new_events w (handleGoogleSignIn (Threw err) w) =
       [SetError None, SetIsLoading True,
        SetError (Some ''Failed to sign in with Google. Please try again.''),
        SetIsLoading False]
   \<and> isLoading (handleGoogleSignIn (Resolved u) w) = True
   \<and> new_events w (handleGoogleSignIn (Resolved u) w) = [SetError None, SetIsLoading True]"
  by (simp add: handleGoogleSignIn_def setIsLoading_def setError_def new_events_def)

theorem handleGoogleSignIn_loading_witness:
  "isLoading (handleGoogleSignIn (Threw \<lparr>message = Some ''popup closed''\<rparr>) idle_world) = False
   \<and> isLoading (handleGoogleSignIn (Resolved ()) idle_world) = True"
  using handleGoogleSignIn_loading [of "\<lparr>message = Some ''popup closed''\<rparr>" idle_world "()"]
  by (intro conjI) (elim conjE, assumption)+

end
